theory Spec2Isabelle
  imports Main "HOL-Library.Word"
begin

unbundle bit_operations_syntax

section \<open>The generated identifier header Wwise\_IDs.h\<close>

text \<open>
  The header declares, inside \<^verbatim>\<open>namespace AK\<close>, three nested namespaces of
  \<^verbatim>\<open>static const AkUniqueID NAME = <decimal literal>U;\<close> declarations and nothing
  else. The embedding keeps every declaration as one row: the declared name and the
  decimal literal exactly as written (an \<open>int\<close>, so that the literal's size is a fact to
  be proved and not an artefact of the type).
\<close>

text \<open>
  Modelled from the spec: \<^verbatim>\<open>AkUniqueID\<close> is declared in
  \<^verbatim>\<open>AK/SoundEngine/Common/AkTypes.h\<close>, which is not part of the sources; the
  specification calls the identifier a 32-bit unsigned integer.
\<close>

type_synonym AkUniqueID = "32 word"

text \<open>
  Modelled from the spec: \<^verbatim>\<open>AK_INVALID_UNIQUE_ID\<close> is declared in the same absent
  header; it is the middleware's invalid-identifier sentinel, the value 0.
\<close>

definition AK_INVALID_UNIQUE_ID :: AkUniqueID where
  "AK_INVALID_UNIQUE_ID = 0"

text \<open>The three namespaces nested in \<^verbatim>\<open>namespace AK\<close>.\<close>

datatype namespace = EVENTS | BUSSES | AUDIO_DEVICES

text \<open>One declaration: the declared name and its initialiser literal.\<close>

type_synonym decl = "string \<times> int"

text \<open>\<open>AK c\<close> lists the declarations of namespace \<^verbatim>\<open>AK::c\<close> in source order.\<close>

fun AK :: "namespace \<Rightarrow> decl list" where
  "AK EVENTS =
    [(''BGM_RANDOMLOOPING'', 3963821017),
     (''BGM_RANDOMLOOPING_STOP'', 2370740652),
     (''BLASTER_FIRE'', 639453935),
     (''BLASTERV3_FIRE'', 2401202452),
     (''BOTTLE_SMASH'', 3295549328),
     (''CHARGING_TOTEM'', 2008779410),
     (''CHEST_OPEN'', 2728948375),
     (''CHEST_REVEAL_01'', 4062859618),
     (''CHEST_REVEAL_02'', 4062859617),
     (''CHEST_REVEAL_03'', 4062859616),
     (''CHEST_REVEAL_04'', 4062859623),
     (''ITEM_PURCHASE'', 946567574),
     (''LEVEL_UP'', 2145291615),
     (''PLAYER_DEATH'', 3083087645),
     (''PLAYER_JUMP'', 1305133589),
     (''PLAYER_SPAWN_IN'', 2311955112),
     (''TOTEM_FINISH'', 39357614),
     (''WEAPON_UPGRADE_TIER_1'', 3850320119),
     (''WEAPON_UPGRADE_TIER_2'', 3850320116),
     (''WEAPON_UPGRADE_TIER_3'', 3850320117)]"
| "AK BUSSES =
    [(''MASTER_AUDIO_BUS'', 3803692087)]"
| "AK AUDIO_DEVICES =
    [(''NO_OUTPUT'', 2317455096),
     (''SYSTEM'', 3859886410)]"

text \<open>
  Initialising a \<^verbatim>\<open>const AkUniqueID\<close> from an unsigned literal converts the
  literal's value to the 32-bit type, that is, reduces it modulo \<open>2 ^ 32\<close>.
\<close>

definition init_value :: "int \<Rightarrow> AkUniqueID" where
  "init_value lit = word_of_int lit"

text \<open>
  An entry of the table: the namespace it is declared in, its symbolic name and the value
  its constant holds.
\<close>

record entry =
  category :: namespace
  name :: string
  ident :: AkUniqueID

definition entries_of :: "namespace \<Rightarrow> entry list" where
  "entries_of c =
     map (\<lambda>(n, lit). \<lparr>category = c, name = n, ident = init_value lit\<rparr>) (AK c)"

text \<open>The whole header: the namespaces in source order.\<close>

definition Wwise_IDs :: "entry list" where
  "Wwise_IDs = concat (map entries_of [EVENTS, BUSSES, AUDIO_DEVICES])"

subsection \<open>Reading a constant\<close>

text \<open>
  The header defines no function. A use of \<^verbatim>\<open>AK::c::n\<close> in a program is
  resolved to the declaration of that name in that namespace; the accessor below finds
  the entry for the qualified name in an image of the constant data and returns its
  value together with the image. \<open>None\<close> stands for a name the header does not
  declare (a program using such a name does not compile).
\<close>

type_synonym image = "entry list"

definition read_const :: "namespace \<Rightarrow> string \<Rightarrow> image \<Rightarrow> AkUniqueID option \<times> image" where
  "read_const c n img =
     (map_option ident (find (\<lambda>e. category e = c \<and> name e = n) img), img)"

text \<open>Reading \<^verbatim>\<open>AK::c::n\<close> in the image the header defines.\<close>

definition lookup :: "namespace \<Rightarrow> string \<Rightarrow> AkUniqueID option" where
  "lookup c n = fst (read_const c n Wwise_IDs)"

subsection \<open>The authoring tool's hash\<close>

text \<open>
  Modelled from the spec: the identifiers are hashes computed from the name by the
  external authoring tool, which is not part of the sources. For Wwise the hash is the
  32-bit FNV-1 hash (offset basis 2166136261, prime 16777619, for each byte multiply and
  then exclusive-or the byte) of the name in lower case.
\<close>

definition to_lower :: "char \<Rightarrow> char" where
  "to_lower ch =
     (let k = (of_char ch :: nat) in if 65 \<le> k \<and> k \<le> 90 then char_of (k + 32) else ch)"

definition FNV_offset_basis :: "32 word" where
  "FNV_offset_basis = 2166136261"

definition FNV_prime :: "32 word" where
  "FNV_prime = 16777619"

definition fnv1_32 :: "string \<Rightarrow> 32 word" where
  "fnv1_32 s = fold (\<lambda>ch h. (h * FNV_prime) XOR of_char ch) s FNV_offset_basis"

definition name_hash :: "string \<Rightarrow> AkUniqueID" where
  "name_hash n = fnv1_32 (map to_lower n)"

section \<open>Evaluating the table\<close>

lemma Wwise_IDs_length: "length Wwise_IDs = 23"
  by (simp add: Wwise_IDs_def entries_of_def)

lemma names_distinct: "distinct (map name Wwise_IDs)"
  by (simp add: Wwise_IDs_def entries_of_def)

lemma idents_distinct: "distinct (map ident Wwise_IDs)"
  by (simp add: Wwise_IDs_def entries_of_def init_value_def)

lemma namespace_names_distinct: "distinct (map name (entries_of c))"
  by (cases c) (simp_all add: entries_of_def)

lemma namespace_idents_distinct: "distinct (map ident (entries_of c))"
  by (cases c) (simp_all add: entries_of_def init_value_def)

lemma lookup_declared:
  "list_all (\<lambda>(n, lit). lookup c n = Some (init_value lit)) (AK c)"
  by (cases c) (simp_all add: lookup_def read_const_def Wwise_IDs_def entries_of_def)

lemma declared_names_distinct:
  "distinct (map fst (AK EVENTS @ AK BUSSES @ AK AUDIO_DEVICES))"
  by simp

lemma declared_in_header:
  "d \<in> set (AK c) \<Longrightarrow> d \<in> set (AK EVENTS @ AK BUSSES @ AK AUDIO_DEVICES)"
  unfolding set_append by (cases c) blast+

lemma declared_name_determines_literal:
  assumes "(n, lit) \<in> set (AK c)" and "(n, lit') \<in> set (AK c')"
  shows "lit' = lit"
  using eq_key_imp_eq_value [OF declared_names_distinct
      declared_in_header [OF assms(2)] declared_in_header [OF assms(1)]] .

lemma name_of_bus: "(n, lit) \<in> set (AK c) \<Longrightarrow> (n = ''MASTER_AUDIO_BUS'') = (c = BUSSES)"
  by (cases c) auto

lemma namespace_UNIV: "(UNIV :: namespace set) = {EVENTS, BUSSES, AUDIO_DEVICES}"
proof -
  have "c \<in> {EVENTS, BUSSES, AUDIO_DEVICES}" for c by (cases c) simp_all
  then show ?thesis by blast
qed

lemma category_entries_of: "e \<in> set (entries_of c) \<Longrightarrow> category e = c"
  by (auto simp add: entries_of_def)

lemma set_Wwise_IDs:
  "set Wwise_IDs =
     set (entries_of EVENTS) \<union> set (entries_of BUSSES) \<union> set (entries_of AUDIO_DEVICES)"
  by (simp add: Wwise_IDs_def Un_assoc)

subsection \<open>Evaluating the hash on the declared names\<close>

lemma hash_of_events:
  "list_all (\<lambda>(n, lit). init_value lit = name_hash n) (AK EVENTS)"
  by code_simp

lemma hash_of_devices:
  "list_all (\<lambda>(n, lit). init_value lit = name_hash n) (AK AUDIO_DEVICES)"
  by code_simp

lemma hash_of_busses:
  "list_all (\<lambda>(n, lit). init_value lit = name_hash ''Master Audio Bus'') (AK BUSSES)"
  by code_simp

section \<open>Uniqueness\<close>

text \<open>
  Claim C1. Within each of the namespaces EVENTS, BUSSES and AUDIO\_DEVICES, any two
  distinct entries (entries at different positions of the namespace) have different
  symbolic names and different 32-bit identifier values.
\<close>

theorem unique_within_namespace:
  assumes "i < length (entries_of c)" and "j < length (entries_of c)" and "i \<noteq> j"
  shows "name (entries_of c ! i) \<noteq> name (entries_of c ! j)
       \<and> ident (entries_of c ! i) \<noteq> ident (entries_of c ! j)"
proof
  show "name (entries_of c ! i) \<noteq> name (entries_of c ! j)"
    using nth_eq_iff_index_eq [OF namespace_names_distinct, of i c j] assms by simp
  show "ident (entries_of c ! i) \<noteq> ident (entries_of c ! j)"
    using nth_eq_iff_index_eq [OF namespace_idents_distinct, of i c j] assms by simp
qed

text \<open>
  The theorem at CHEST\_REVEAL\_01 and CHEST\_REVEAL\_02, whose names differ in the last
  character and whose identifiers differ by one.
\<close>

theorem unique_within_namespace_witness:
  "(7::nat) < length (entries_of EVENTS) \<and> (8::nat) < length (entries_of EVENTS)
   \<and> name (entries_of EVENTS ! 7) \<noteq> name (entries_of EVENTS ! 8)
   \<and> ident (entries_of EVENTS ! 7) \<noteq> ident (entries_of EVENTS ! 8)"
  using unique_within_namespace [of 7 EVENTS 8] by (simp add: entries_of_def)

text \<open>
  Claim C9. The identifier values are unique across the whole header: the table has 23
  entries, and any two entries at different positions, from the same namespace or from
  different ones, have different identifier values.
\<close>

theorem unique_across_namespaces:
  "length Wwise_IDs = 23 \<and>
   (\<forall>i j. i < length Wwise_IDs \<longrightarrow> j < length Wwise_IDs \<longrightarrow> i \<noteq> j
      \<longrightarrow> ident (Wwise_IDs ! i) \<noteq> ident (Wwise_IDs ! j))"
proof (intro conjI allI impI)
  show "length Wwise_IDs = 23" by (rule Wwise_IDs_length)
next
  fix i j
  assume a: "i < length Wwise_IDs" "j < length Wwise_IDs" "i \<noteq> j"
  show "ident (Wwise_IDs ! i) \<noteq> ident (Wwise_IDs ! j)"
    using nth_eq_iff_index_eq [OF idents_distinct, of i j] a by simp
qed

text \<open>The theorem at the first event and the master bus, entries 0 and 20.\<close>

theorem unique_across_namespaces_witness:
  "(0::nat) < length Wwise_IDs \<and> (20::nat) < length Wwise_IDs
   \<and> category (Wwise_IDs ! 0) = EVENTS \<and> category (Wwise_IDs ! 20) = BUSSES
   \<and> ident (Wwise_IDs ! 0) \<noteq> ident (Wwise_IDs ! 20)"
  using unique_across_namespaces [THEN conjunct2, rule_format, of 0 20]
  by (simp add: Wwise_IDs_def entries_of_def init_value_def)

section \<open>Range of the identifiers\<close>

text \<open>
  Claim C2. Every initialiser literal of the header lies in the range 0 .. 2^32 - 1, so
  the conversion to the 32-bit type does not change it: the constant holds exactly the
  value that is written.
\<close>

theorem literal_fits_32_bits:
  "(n, lit) \<in> set (AK c) \<Longrightarrow> 0 \<le> lit \<and> lit < 2 ^ 32 \<and> uint (init_value lit) = lit"
  by (cases c) (auto simp add: init_value_def)

theorem literal_fits_32_bits_witness:
  "(''SYSTEM'', 3859886410) \<in> set (AK AUDIO_DEVICES)
   \<and> (0::int) \<le> 3859886410 \<and> (3859886410::int) < 2 ^ 32
   \<and> uint (init_value 3859886410) = 3859886410"
  using literal_fits_32_bits [of "''SYSTEM''" 3859886410 AUDIO_DEVICES] by simp

text \<open>
  Claim C10. No identifier of the table is zero: every constant differs from the
  invalid-identifier sentinel and is strictly positive as an unsigned number.
\<close>

theorem ident_not_invalid:
  "e \<in> set Wwise_IDs \<Longrightarrow> ident e \<noteq> AK_INVALID_UNIQUE_ID \<and> 0 < unat (ident e)"
  by (auto simp add: Wwise_IDs_def entries_of_def init_value_def AK_INVALID_UNIQUE_ID_def)

text \<open>The theorem at TOTEM\_FINISH, the smallest identifier of the table.\<close>

theorem ident_not_invalid_witness:
  "\<lparr>category = EVENTS, name = ''TOTEM_FINISH'', ident = 39357614\<rparr> \<in> set Wwise_IDs
   \<and> (39357614 :: AkUniqueID) \<noteq> AK_INVALID_UNIQUE_ID \<and> 0 < unat (39357614 :: AkUniqueID)"
  using ident_not_invalid [of "\<lparr>category = EVENTS, name = ''TOTEM_FINISH'', ident = 39357614\<rparr>"]
  by (simp add: Wwise_IDs_def entries_of_def init_value_def)

section \<open>Looking a constant up\<close>

text \<open>
  Claim C3. Reading the constant \<^verbatim>\<open>AK::EVENTS::BGM_RANDOMLOOPING\<close> returns the
  value 3963821017 (as a 32-bit value, and read as an unsigned number).
\<close>

theorem BGM_RANDOMLOOPING_value:
  "lookup EVENTS ''BGM_RANDOMLOOPING'' = Some 3963821017
   \<and> map_option unat (lookup EVENTS ''BGM_RANDOMLOOPING'') = Some 3963821017"
  by (simp add: lookup_def read_const_def Wwise_IDs_def entries_of_def init_value_def)

text \<open>
  Claim C7. Lookup never fails on a declared name: for every declaration of every
  namespace, reading the constant of that name in that namespace succeeds and returns
  the value the declaration binds to it.
\<close>

theorem lookup_total_on_declared:
  "(n, lit) \<in> set (AK c) \<Longrightarrow> lookup c n = Some (init_value lit)"
  using lookup_declared [of c] by (auto simp add: list_all_iff)

theorem lookup_total_on_declared_witness:
  "(''NO_OUTPUT'', 2317455096) \<in> set (AK AUDIO_DEVICES)
   \<and> lookup AUDIO_DEVICES ''NO_OUTPUT'' = Some 2317455096"
  using lookup_total_on_declared [of "''NO_OUTPUT''" 2317455096 AUDIO_DEVICES]
  by (simp add: init_value_def)

section \<open>Namespaces\<close>

text \<open>
  Claim C5. There are exactly the three namespaces EVENTS, BUSSES and AUDIO\_DEVICES; the
  table consists of the entries of these three and of nothing else; every entry of the
  table belongs to exactly one namespace; and the entries of every namespace have the
  same shape, a declared name with the 32-bit value of its literal.
\<close>

theorem entry_in_exactly_one_namespace:
  "(UNIV :: namespace set) = {EVENTS, BUSSES, AUDIO_DEVICES}
   \<and> set Wwise_IDs = (\<Union>c \<in> {EVENTS, BUSSES, AUDIO_DEVICES}. set (entries_of c))
   \<and> (\<forall>e \<in> set Wwise_IDs. \<exists>!c. e \<in> set (entries_of c))
   \<and> (\<forall>c. \<forall>e \<in> set (entries_of c). \<exists>n lit. (n, lit) \<in> set (AK c)
          \<and> e = \<lparr>category = c, name = n, ident = init_value lit\<rparr>)"
proof (intro conjI ballI allI)
  show "(UNIV :: namespace set) = {EVENTS, BUSSES, AUDIO_DEVICES}"
    by (rule namespace_UNIV)
next
  show "set Wwise_IDs = (\<Union>c \<in> {EVENTS, BUSSES, AUDIO_DEVICES}. set (entries_of c))"
    unfolding set_Wwise_IDs by blast
next
  fix e
  assume "e \<in> set Wwise_IDs"
  then obtain c where c: "e \<in> set (entries_of c)"
    unfolding set_Wwise_IDs by blast
  show "\<exists>!c. e \<in> set (entries_of c)"
  proof
    show "e \<in> set (entries_of c)" by (rule c)
  next
    fix c'
    assume "e \<in> set (entries_of c')"
    then show "c' = c" using c category_entries_of by metis
  qed
next
  fix c e
  assume "e \<in> set (entries_of c)"
  then show "\<exists>n lit. (n, lit) \<in> set (AK c)
      \<and> e = \<lparr>category = c, name = n, ident = init_value lit\<rparr>"
    unfolding entries_of_def by auto
qed

text \<open>The theorem at the master bus: it is in BUSSES and in no other namespace.\<close>

theorem entry_in_exactly_one_namespace_witness:
  "\<lparr>category = BUSSES, name = ''MASTER_AUDIO_BUS'', ident = 3803692087\<rparr> \<in> set Wwise_IDs
   \<and> \<lparr>category = BUSSES, name = ''MASTER_AUDIO_BUS'', ident = 3803692087\<rparr>
        \<in> set (entries_of BUSSES)
   \<and> \<lparr>category = BUSSES, name = ''MASTER_AUDIO_BUS'', ident = 3803692087\<rparr>
        \<notin> set (entries_of EVENTS)
   \<and> \<lparr>category = BUSSES, name = ''MASTER_AUDIO_BUS'', ident = 3803692087\<rparr>
        \<notin> set (entries_of AUDIO_DEVICES)"
  using entry_in_exactly_one_namespace
      [THEN conjunct2, THEN conjunct2, THEN conjunct1, rule_format,
       of "\<lparr>category = BUSSES, name = ''MASTER_AUDIO_BUS'', ident = 3803692087\<rparr>"]
  by (simp add: Wwise_IDs_def entries_of_def init_value_def)

section \<open>Identifiers as hashes of names\<close>

text \<open>
  Claim C4, as stated: the identifier of every entry is the 32-bit FNV-1 hash of its
  lower-cased symbolic name. This fails at the one entry of BUSSES: the hash of
  \<^verbatim>\<open>master_audio_bus\<close> is 2392784291, not the declared 3803692087.
\<close>

theorem MASTER_AUDIO_BUS_not_hash_of_symbol:
  "(''MASTER_AUDIO_BUS'', 3803692087) \<in> set (AK BUSSES)
   \<and> init_value 3803692087 \<noteq> name_hash ''MASTER_AUDIO_BUS''
   \<and> name_hash ''MASTER_AUDIO_BUS'' = 2392784291"
  by code_simp

text \<open>
  Claim C4, amended. For every entry other than MASTER\_AUDIO\_BUS the identifier is the
  32-bit FNV-1 hash of the lower-cased symbolic name; the identifier of
  MASTER\_AUDIO\_BUS is that hash of the name written with spaces, ``Master Audio Bus''.
  In every case the name determines the identifier: two declarations of the header with
  the same name, in whichever namespaces, hold the same value.
\<close>

theorem ident_is_hash_of_name:
  assumes "(n, lit) \<in> set (AK c)"
  shows "(n \<noteq> ''MASTER_AUDIO_BUS'' \<longrightarrow> init_value lit = name_hash n)
       \<and> (n = ''MASTER_AUDIO_BUS'' \<longrightarrow> init_value lit = name_hash ''Master Audio Bus'')
       \<and> (\<forall>c' lit'. (n, lit') \<in> set (AK c') \<longrightarrow> init_value lit' = init_value lit)"
proof (intro conjI allI impI)
  assume "n \<noteq> ''MASTER_AUDIO_BUS''"
  with name_of_bus [OF assms] have "c = EVENTS \<or> c = AUDIO_DEVICES"
    by (cases c) simp_all
  then show "init_value lit = name_hash n"
    using hash_of_events hash_of_devices assms unfolding list_all_iff by blast
next
  assume "n = ''MASTER_AUDIO_BUS''"
  with name_of_bus [OF assms] have "c = BUSSES" by simp
  then show "init_value lit = name_hash ''Master Audio Bus''"
    using hash_of_busses assms unfolding list_all_iff by blast
next
  fix c' lit'
  assume "(n, lit') \<in> set (AK c')"
  then show "init_value lit' = init_value lit"
    using declared_name_determines_literal [OF assms] by simp
qed

theorem ident_is_hash_of_name_witness:
  "(''CHEST_OPEN'', 2728948375) \<in> set (AK EVENTS)
   \<and> init_value 2728948375 = name_hash ''CHEST_OPEN''"
  using ident_is_hash_of_name [of "''CHEST_OPEN''" 2728948375 EVENTS] by simp

end
